theory Spec2Isabelle
  imports Main "HOL-Library.Word"
begin

unbundle bit_operations_syntax

section \<open>Machine types\<close>

text \<open>
  \<^verbatim>\<open>size_t\<close>, \<^verbatim>\<open>uintptr_t\<close> and data pointers are unsigned machine words of one
  width \<open>LENGTH('a)\<close>, which is left open: every definition and theorem below holds for
  each word width (32, 64, ...). Arithmetic on words wraps modulo \<open>2 ^ LENGTH('a)\<close>, the
  order \<open>\<le>\<close> on words is the unsigned one, as in C. A pointer is the address it holds;
  \<^verbatim>\<open>NULL\<close> is address 0 and \<^verbatim>\<open>p += n\<close> on a \<^verbatim>\<open>uint8_t *\<close> adds \<open>n\<close> to the address.
\<close>

type_synonym 'a size_t = "'a word"
type_synonym 'a pointer = "'a word"

definition SIZE_MAX :: "'a::len size_t" where
  "SIZE_MAX = - 1"

definition NULL :: "'a::len pointer" where
  "NULL = 0"

section \<open>Byte cursors (\<^verbatim>\<open>src/unnamed/part_000\<close>)\<close>

text \<open>\<^verbatim>\<open>struct aws_byte_cursor { uint8_t *ptr; size_t len; }\<close>\<close>

record (overloaded) ('a :: len) aws_byte_cursor =
  ptr :: "'a pointer"
  len :: "'a size_t"

text \<open>
  \<^verbatim>\<open>aws_nospec_index\<close>. The optimizer barriers (the empty \<^verbatim>\<open>asm volatile\<close>, the
  \<^verbatim>\<open>+= 0\<close> through a volatile pointer) leave the value of \<open>index\<close> as it is. The
  local \<^verbatim>\<open>combined_mask\<close> is assigned three times; each \<open>let\<close> is one assignment.
  \<^verbatim>\<open>SIZE_MAX >> 1\<close> is \<open>drop_bit 1 SIZE_MAX\<close>; \<^verbatim>\<open>~\<close> is \<open>NOT\<close>; \<^verbatim>\<open>/\<close> on
  \<^verbatim>\<open>size_t\<close> is unsigned division.
\<close>

definition aws_nospec_index :: "'a::len size_t \<Rightarrow> 'a size_t \<Rightarrow> 'a size_t" where
  "aws_nospec_index index bound =
     (let negative_mask = index OR bound;
          toobig_mask = bound - index - 1;
          combined_mask = negative_mask OR toobig_mask;
          combined_mask = (NOT combined_mask) div (SIZE_MAX - drop_bit 1 SIZE_MAX);
          combined_mask = combined_mask * SIZE_MAX
      in index AND combined_mask)"

text \<open>
  The value that the local \<^verbatim>\<open>combined_mask\<close> of \<^verbatim>\<open>aws_nospec_index\<close> holds at the
  \<^verbatim>\<open>return\<close> statement (the same assignments, without the final \<^verbatim>\<open>index &\<close>).
\<close>

definition nospec_combined_mask :: "'a::len size_t \<Rightarrow> 'a size_t \<Rightarrow> 'a size_t" where
  "nospec_combined_mask index bound =
     (let negative_mask = index OR bound;
          toobig_mask = bound - index - 1;
          combined_mask = negative_mask OR toobig_mask;
          combined_mask = (NOT combined_mask) div (SIZE_MAX - drop_bit 1 SIZE_MAX);
          combined_mask = combined_mask * SIZE_MAX
      in combined_mask)"

text \<open>
  \<^verbatim>\<open>aws_byte_cursor_advance(cursor, len)\<close>. The function returns \<^verbatim>\<open>rv\<close> and updates
  \<^verbatim>\<open>*cursor\<close> in place: the model returns the pair (\<^verbatim>\<open>rv\<close>, \<^verbatim>\<open>*cursor\<close> afterwards).
\<close>

definition aws_byte_cursor_advance ::
  "'a::len aws_byte_cursor \<Rightarrow> 'a size_t \<Rightarrow> 'a aws_byte_cursor \<times> 'a aws_byte_cursor" where
  "aws_byte_cursor_advance cursor n =
     (if len cursor > drop_bit 1 SIZE_MAX \<or> n > drop_bit 1 SIZE_MAX \<or> n > len cursor
      then (\<lparr>ptr = NULL, len = 0\<rparr>, cursor)
      else (\<lparr>ptr = ptr cursor, len = n\<rparr>,
            \<lparr>ptr = ptr cursor + n, len = len cursor - n\<rparr>))"

text \<open>\<^verbatim>\<open>aws_byte_cursor_advance_nospec(cursor, len)\<close>, with the same result pair.\<close>

definition aws_byte_cursor_advance_nospec ::
  "'a::len aws_byte_cursor \<Rightarrow> 'a size_t \<Rightarrow> 'a aws_byte_cursor \<times> 'a aws_byte_cursor" where
  "aws_byte_cursor_advance_nospec cursor n =
     (if n \<le> len cursor \<and> n \<le> drop_bit 1 SIZE_MAX \<and> len cursor \<le> drop_bit 1 SIZE_MAX
      then (let n' = aws_nospec_index n (len cursor + 1)
            in (\<lparr>ptr = ptr cursor, len = n'\<rparr>,
                \<lparr>ptr = ptr cursor + n', len = len cursor - n'\<rparr>))
      else (\<lparr>ptr = NULL, len = 0\<rparr>, cursor))"

text \<open>
  A caller's sequence of advancing calls on one cursor: each call is one of the two
  functions with its length argument (a \<^verbatim>\<open>size_t\<close>); \<open>advance_calls\<close> threads the cursor through the
  calls and gives its final state (the returned views are dropped).
\<close>

datatype 'n advance_call = Advance 'n | Advance_Nospec 'n

fun do_advance_call :: "'a::len aws_byte_cursor \<Rightarrow> 'a size_t advance_call
    \<Rightarrow> 'a aws_byte_cursor \<times> 'a aws_byte_cursor" where
  "do_advance_call cursor (Advance n) = aws_byte_cursor_advance cursor n"
| "do_advance_call cursor (Advance_Nospec n) = aws_byte_cursor_advance_nospec cursor n"

fun advance_calls :: "'a::len aws_byte_cursor \<Rightarrow> 'a size_t advance_call list \<Rightarrow> 'a aws_byte_cursor" where
  "advance_calls cursor [] = cursor"
| "advance_calls cursor (c # cs) = advance_calls (snd (do_advance_call cursor c)) cs"

section \<open>Atomics on the GNU builtins (\<^verbatim>\<open>src/include/aws/common/atomics_gnu.inl\<close>)\<close>

text \<open>
  \<^verbatim>\<open>enum aws_memory_order\<close> is declared in \<^verbatim>\<open>aws/common/atomics.h\<close>, which is not among
  the sources: the numeric values of its five enumerators are a parameter, a record
  with one field for each enumerator. An argument of the enum type is a C integer, so a
  caller can pass a value that is none of the five.
\<close>

record aws_memory_order_enum =
  aws_memory_order_relaxed :: int
  aws_memory_order_acquire :: int
  aws_memory_order_release :: int
  aws_memory_order_acq_rel :: int
  aws_memory_order_seq_cst :: int

text \<open>The compiler's memory-order tokens \<^verbatim>\<open>__ATOMIC_RELAXED\<close>, ..., \<^verbatim>\<open>__ATOMIC_SEQ_CST\<close>.\<close>

datatype atomic_memorder =
  ATOMIC_RELAXED | ATOMIC_CONSUME | ATOMIC_ACQUIRE | ATOMIC_RELEASE | ATOMIC_ACQ_REL | ATOMIC_SEQ_CST

text \<open>\<^verbatim>\<open>abort()\<close> ends the process: a call that reaches it returns \<open>Inl Abort\<close>.\<close>

datatype fatal = Abort

text \<open>
  \<^verbatim>\<open>aws_atomic_priv_xlate_order\<close>: the \<^verbatim>\<open>switch\<close> compares \<open>order\<close> with the case
  labels; \<^verbatim>\<open>default\<close> calls \<^verbatim>\<open>abort()\<close>.
\<close>

definition aws_atomic_priv_xlate_order ::
  "aws_memory_order_enum \<Rightarrow> int \<Rightarrow> fatal + atomic_memorder" where
  "aws_atomic_priv_xlate_order E order =
     (if order = aws_memory_order_relaxed E then Inr ATOMIC_RELAXED
      else if order = aws_memory_order_acquire E then Inr ATOMIC_ACQUIRE
      else if order = aws_memory_order_release E then Inr ATOMIC_RELEASE
      else if order = aws_memory_order_acq_rel E then Inr ATOMIC_ACQ_REL
      else if order = aws_memory_order_seq_cst E then Inr ATOMIC_SEQ_CST
      else Inl Abort)"

text \<open>
  \<^verbatim>\<open>struct aws_atomic_var { union { size_t intval; void *ptrval; }; }\<close>: the two members
  of the union share one word of storage, \<open>cell\<close>; \<open>intval\<close> and \<open>ptrval\<close> read it.
\<close>

record (overloaded) ('a :: len) aws_atomic_var =
  cell :: "'a word"

definition intval :: "'a::len aws_atomic_var \<Rightarrow> 'a size_t" where
  "intval var = cell var"

definition ptrval :: "'a::len aws_atomic_var \<Rightarrow> 'a pointer" where
  "ptrval var = cell var"

text \<open>
  The GNU \<^verbatim>\<open>__atomic\<close> builtins, as they act on the addressed object when no other
  thread runs between read and write (each is one indivisible step). The memory order
  constrains the visibility between threads, not the value read or written. A builtin
  that writes returns the new content of the object beside its C result.
\<close>

definition atomic_load_n :: "'a::len word \<Rightarrow> atomic_memorder \<Rightarrow> 'a word" where
  "atomic_load_n obj mo = obj"

definition atomic_store_n :: "'a::len word \<Rightarrow> 'a word \<Rightarrow> atomic_memorder \<Rightarrow> 'a word" where
  "atomic_store_n obj v mo = v"

definition atomic_exchange_n :: "'a::len word \<Rightarrow> 'a word \<Rightarrow> atomic_memorder \<Rightarrow> 'a word \<times> 'a word" where
  "atomic_exchange_n obj v mo = (obj, v)"

text \<open>
  \<^verbatim>\<open>__atomic_compare_exchange_n(ptr, expected, desired, false, success, failure)\<close>, the
  strong variant (\<^verbatim>\<open>weak = false\<close>, no spurious failure). The result is
  (C result, \<^verbatim>\<open>*ptr\<close> afterwards, \<^verbatim>\<open>*expected\<close> afterwards).
\<close>

definition atomic_compare_exchange_n ::
  "'a::len word \<Rightarrow> 'a word \<Rightarrow> 'a word \<Rightarrow> atomic_memorder \<Rightarrow> atomic_memorder
     \<Rightarrow> bool \<times> 'a word \<times> 'a word" where
  "atomic_compare_exchange_n obj expected desired mo_success mo_failure =
     (if obj = expected then (True, desired, expected) else (False, obj, obj))"

definition atomic_fetch_add :: "'a::len word \<Rightarrow> 'a word \<Rightarrow> atomic_memorder \<Rightarrow> 'a word \<times> 'a word" where
  "atomic_fetch_add obj n mo = (obj, obj + n)"

definition atomic_fetch_sub :: "'a::len word \<Rightarrow> 'a word \<Rightarrow> atomic_memorder \<Rightarrow> 'a word \<times> 'a word" where
  "atomic_fetch_sub obj n mo = (obj, obj - n)"

definition atomic_fetch_or :: "'a::len word \<Rightarrow> 'a word \<Rightarrow> atomic_memorder \<Rightarrow> 'a word \<times> 'a word" where
  "atomic_fetch_or obj n mo = (obj, obj OR n)"

definition atomic_fetch_and :: "'a::len word \<Rightarrow> 'a word \<Rightarrow> atomic_memorder \<Rightarrow> 'a word \<times> 'a word" where
  "atomic_fetch_and obj n mo = (obj, obj AND n)"

definition atomic_fetch_xor :: "'a::len word \<Rightarrow> 'a word \<Rightarrow> atomic_memorder \<Rightarrow> 'a word \<times> 'a word" where
  "atomic_fetch_xor obj n mo = (obj, obj XOR n)"

text \<open>
  The functions of the file. Each translates its order first, so each can abort; a
  function that writes \<^verbatim>\<open>*var\<close> returns the variable afterwards beside its C result.
\<close>

definition aws_atomic_init_int :: "'a::len aws_atomic_var \<Rightarrow> 'a size_t \<Rightarrow> 'a aws_atomic_var" where
  "aws_atomic_init_int var n = var\<lparr>cell := n\<rparr>"

definition aws_atomic_init_ptr :: "'a::len aws_atomic_var \<Rightarrow> 'a pointer \<Rightarrow> 'a aws_atomic_var" where
  "aws_atomic_init_ptr var p = var\<lparr>cell := p\<rparr>"

definition aws_atomic_load_int_explicit ::
  "aws_memory_order_enum \<Rightarrow> 'a::len aws_atomic_var \<Rightarrow> int \<Rightarrow> fatal + 'a size_t" where
  "aws_atomic_load_int_explicit E var memory_order =
     (case aws_atomic_priv_xlate_order E memory_order of
        Inl e \<Rightarrow> Inl e
      | Inr mo \<Rightarrow> Inr (atomic_load_n (intval var) mo))"

definition aws_atomic_load_ptr_explicit ::
  "aws_memory_order_enum \<Rightarrow> 'a::len aws_atomic_var \<Rightarrow> int \<Rightarrow> fatal + 'a pointer" where
  "aws_atomic_load_ptr_explicit E var memory_order =
     (case aws_atomic_priv_xlate_order E memory_order of
        Inl e \<Rightarrow> Inl e
      | Inr mo \<Rightarrow> Inr (atomic_load_n (ptrval var) mo))"

definition aws_atomic_store_int_explicit ::
  "aws_memory_order_enum \<Rightarrow> 'a::len aws_atomic_var \<Rightarrow> 'a size_t \<Rightarrow> int \<Rightarrow> fatal + 'a aws_atomic_var" where
  "aws_atomic_store_int_explicit E var n memory_order =
     (case aws_atomic_priv_xlate_order E memory_order of
        Inl e \<Rightarrow> Inl e
      | Inr mo \<Rightarrow> Inr (var\<lparr>cell := atomic_store_n (intval var) n mo\<rparr>))"

definition aws_atomic_store_ptr_explicit ::
  "aws_memory_order_enum \<Rightarrow> 'a::len aws_atomic_var \<Rightarrow> 'a pointer \<Rightarrow> int \<Rightarrow> fatal + 'a aws_atomic_var" where
  "aws_atomic_store_ptr_explicit E var p memory_order =
     (case aws_atomic_priv_xlate_order E memory_order of
        Inl e \<Rightarrow> Inl e
      | Inr mo \<Rightarrow> Inr (var\<lparr>cell := atomic_store_n (ptrval var) p mo\<rparr>))"

definition aws_atomic_exchange_int_explicit ::
  "aws_memory_order_enum \<Rightarrow> 'a::len aws_atomic_var \<Rightarrow> 'a size_t \<Rightarrow> int
     \<Rightarrow> fatal + ('a size_t \<times> 'a aws_atomic_var)" where
  "aws_atomic_exchange_int_explicit E var n memory_order =
     (case aws_atomic_priv_xlate_order E memory_order of
        Inl e \<Rightarrow> Inl e
      | Inr mo \<Rightarrow> (case atomic_exchange_n (intval var) n mo of
                     (prev, new) \<Rightarrow> Inr (prev, var\<lparr>cell := new\<rparr>)))"

definition aws_atomic_exchange_ptr_explicit ::
  "aws_memory_order_enum \<Rightarrow> 'a::len aws_atomic_var \<Rightarrow> 'a pointer \<Rightarrow> int
     \<Rightarrow> fatal + ('a pointer \<times> 'a aws_atomic_var)" where
  "aws_atomic_exchange_ptr_explicit E var p memory_order =
     (case aws_atomic_priv_xlate_order E memory_order of
        Inl e \<Rightarrow> Inl e
      | Inr mo \<Rightarrow> (case atomic_exchange_n (ptrval var) p mo of
                     (prev, new) \<Rightarrow> Inr (prev, var\<lparr>cell := new\<rparr>)))"

text \<open>
  The compare-exchange functions return (C result, \<^verbatim>\<open>*var\<close> afterwards,
  \<^verbatim>\<open>*expected\<close> afterwards). Both orders are translated before the builtin runs.
\<close>

definition aws_atomic_compare_exchange_int_explicit ::
  "aws_memory_order_enum \<Rightarrow> 'a::len aws_atomic_var \<Rightarrow> 'a size_t \<Rightarrow> 'a size_t \<Rightarrow> int \<Rightarrow> int
     \<Rightarrow> fatal + (bool \<times> 'a aws_atomic_var \<times> 'a size_t)" where
  "aws_atomic_compare_exchange_int_explicit E var expected desired order_success order_failure =
     (case aws_atomic_priv_xlate_order E order_success of
        Inl e \<Rightarrow> Inl e
      | Inr ms \<Rightarrow>
          (case aws_atomic_priv_xlate_order E order_failure of
             Inl e \<Rightarrow> Inl e
           | Inr mf \<Rightarrow>
               (case atomic_compare_exchange_n (intval var) expected desired ms mf of
                  (ok, new, expected') \<Rightarrow> Inr (ok, var\<lparr>cell := new\<rparr>, expected'))))"

definition aws_atomic_compare_exchange_ptr_explicit ::
  "aws_memory_order_enum \<Rightarrow> 'a::len aws_atomic_var \<Rightarrow> 'a pointer \<Rightarrow> 'a pointer \<Rightarrow> int \<Rightarrow> int
     \<Rightarrow> fatal + (bool \<times> 'a aws_atomic_var \<times> 'a pointer)" where
  "aws_atomic_compare_exchange_ptr_explicit E var expected desired order_success order_failure =
     (case aws_atomic_priv_xlate_order E order_success of
        Inl e \<Rightarrow> Inl e
      | Inr ms \<Rightarrow>
          (case aws_atomic_priv_xlate_order E order_failure of
             Inl e \<Rightarrow> Inl e
           | Inr mf \<Rightarrow>
               (case atomic_compare_exchange_n (ptrval var) expected desired ms mf of
                  (ok, new, expected') \<Rightarrow> Inr (ok, var\<lparr>cell := new\<rparr>, expected'))))"

definition aws_atomic_fetch_add_explicit ::
  "aws_memory_order_enum \<Rightarrow> 'a::len aws_atomic_var \<Rightarrow> 'a size_t \<Rightarrow> int
     \<Rightarrow> fatal + ('a size_t \<times> 'a aws_atomic_var)" where
  "aws_atomic_fetch_add_explicit E var n order =
     (case aws_atomic_priv_xlate_order E order of
        Inl e \<Rightarrow> Inl e
      | Inr mo \<Rightarrow> (case atomic_fetch_add (intval var) n mo of
                     (prev, new) \<Rightarrow> Inr (prev, var\<lparr>cell := new\<rparr>)))"

definition aws_atomic_fetch_sub_explicit ::
  "aws_memory_order_enum \<Rightarrow> 'a::len aws_atomic_var \<Rightarrow> 'a size_t \<Rightarrow> int
     \<Rightarrow> fatal + ('a size_t \<times> 'a aws_atomic_var)" where
  "aws_atomic_fetch_sub_explicit E var n order =
     (case aws_atomic_priv_xlate_order E order of
        Inl e \<Rightarrow> Inl e
      | Inr mo \<Rightarrow> (case atomic_fetch_sub (intval var) n mo of
                     (prev, new) \<Rightarrow> Inr (prev, var\<lparr>cell := new\<rparr>)))"

definition aws_atomic_fetch_or_explicit ::
  "aws_memory_order_enum \<Rightarrow> 'a::len aws_atomic_var \<Rightarrow> 'a size_t \<Rightarrow> int
     \<Rightarrow> fatal + ('a size_t \<times> 'a aws_atomic_var)" where
  "aws_atomic_fetch_or_explicit E var n order =
     (case aws_atomic_priv_xlate_order E order of
        Inl e \<Rightarrow> Inl e
      | Inr mo \<Rightarrow> (case atomic_fetch_or (intval var) n mo of
                     (prev, new) \<Rightarrow> Inr (prev, var\<lparr>cell := new\<rparr>)))"

definition aws_atomic_fetch_and_explicit ::
  "aws_memory_order_enum \<Rightarrow> 'a::len aws_atomic_var \<Rightarrow> 'a size_t \<Rightarrow> int
     \<Rightarrow> fatal + ('a size_t \<times> 'a aws_atomic_var)" where
  "aws_atomic_fetch_and_explicit E var n order =
     (case aws_atomic_priv_xlate_order E order of
        Inl e \<Rightarrow> Inl e
      | Inr mo \<Rightarrow> (case atomic_fetch_and (intval var) n mo of
                     (prev, new) \<Rightarrow> Inr (prev, var\<lparr>cell := new\<rparr>)))"

definition aws_atomic_fetch_xor_explicit ::
  "aws_memory_order_enum \<Rightarrow> 'a::len aws_atomic_var \<Rightarrow> 'a size_t \<Rightarrow> int
     \<Rightarrow> fatal + ('a size_t \<times> 'a aws_atomic_var)" where
  "aws_atomic_fetch_xor_explicit E var n order =
     (case aws_atomic_priv_xlate_order E order of
        Inl e \<Rightarrow> Inl e
      | Inr mo \<Rightarrow> (case atomic_fetch_xor (intval var) n mo of
                     (prev, new) \<Rightarrow> Inr (prev, var\<lparr>cell := new\<rparr>)))"

text \<open>The five values that a caller is allowed to pass as an order.\<close>

definition memory_orders :: "aws_memory_order_enum \<Rightarrow> int list" where
  "memory_orders E =
     [aws_memory_order_relaxed E, aws_memory_order_acquire E, aws_memory_order_release E,
      aws_memory_order_acq_rel E, aws_memory_order_seq_cst E]"

text \<open>
  The numbering that the compiler gives the enumerators when they follow the builtin
  tokens (relaxed 0, acquire 2, release 3, acq_rel 4, seq_cst 5); used for concrete
  instances only.
\<close>

definition gnu_orders :: aws_memory_order_enum where
  "gnu_orders = \<lparr>aws_memory_order_relaxed = 0, aws_memory_order_acquire = 2,
     aws_memory_order_release = 3, aws_memory_order_acq_rel = 4, aws_memory_order_seq_cst = 5\<rparr>"

section \<open>Facts about words\<close>

lemma two_pow_len: "(2 :: nat) ^ LENGTH('a::len) = 2 * 2 ^ (LENGTH('a) - 1)"
  by (metis One_nat_def Suc_pred len_gt_0 power_Suc)

lemma top_bit_word: "(- 1 :: 'a::len word) - drop_bit 1 (- 1) = 2 ^ (LENGTH('a) - 1)"
proof -
  have "drop_bit 1 (- 1 :: 'a word) = mask (LENGTH('a) - 1)"
    by (rule bit_word_eqI) (auto simp add: bit_simps)
  moreover have "(2 :: 'a word) * 2 ^ (LENGTH('a) - 1) = 2 ^ LENGTH('a)"
    by (metis One_nat_def Suc_pred len_gt_0 power_Suc)
  ultimately show ?thesis
    by (simp add: mask_eq_exp_minus_1 algebra_simps)
qed

lemma half_max_unat: "unat (drop_bit 1 (SIZE_MAX :: 'a::len word)) = 2 ^ (LENGTH('a) - 1) - 1"
proof -
  have m: "unat (- 1 :: 'a word) = 2 * 2 ^ (LENGTH('a) - 1) - 1"
    unfolding unsigned_minus_1_eq_mask mask_eq_exp_minus_1 two_pow_len ..
  have "unat (drop_bit 1 (- 1 :: 'a word)) = drop_bit 1 (unat (- 1 :: 'a word))"
    by (rule unat_drop_bit_eq)
  also have "\<dots> = (2 * 2 ^ (LENGTH('a) - 1) - 1) div 2"
    unfolding m drop_bit_eq_div by simp
  also have "\<dots> = 2 ^ (LENGTH('a) - 1) - 1"
    by (simp add: div_nat_eqI)
  finally show ?thesis
    unfolding SIZE_MAX_def .
qed

lemma half_max_div: "(SIZE_MAX :: 'a::len word) div 2 = drop_bit 1 SIZE_MAX"
  by (simp add: drop_bit_eq_div)

lemma le_half_max_iff: "x \<le> drop_bit 1 (SIZE_MAX :: 'a::len word) \<longleftrightarrow> unat x < 2 ^ (LENGTH('a) - 1)"
proof -
  have "0 < (2 :: nat) ^ (LENGTH('a) - 1)" by simp
  then show ?thesis
    unfolding word_le_nat_alt half_max_unat by arith
qed

section \<open>The mask of \<open>aws_nospec_index\<close>\<close>

lemma div_top_bit:
  "(x :: 'a::len word) div 2 ^ (LENGTH('a) - 1) = (if bit x (LENGTH('a) - 1) then 1 else 0)"
proof -
  have "x div 2 ^ (LENGTH('a) - 1) = drop_bit (LENGTH('a) - 1) x"
    by (simp add: drop_bit_eq_div)
  also have "\<dots> = (if bit x (LENGTH('a) - 1) then 1 else 0)"
  proof (rule bit_word_eqI)
    fix k assume "k < LENGTH('a)"
    show "bit (drop_bit (LENGTH('a) - 1) x) k
        = bit (if bit x (LENGTH('a) - 1) then 1 else 0 :: 'a word) k"
    proof (cases k)
      case 0
      then show ?thesis by (simp add: bit_simps)
    next
      case (Suc j)
      have "\<not> bit x (LENGTH('a) - 1 + Suc j)"
        using bit_imp_le_length [of x "LENGTH('a) - 1 + Suc j"] by auto
      with Suc show ?thesis by (simp add: bit_simps)
    qed
  qed
  finally show ?thesis .
qed

lemma bit_top_unat:
  "bit (x :: 'a::len word) (LENGTH('a) - 1) \<longleftrightarrow> 2 ^ (LENGTH('a) - 1) \<le> unat x"
proof -
  have lt: "unat x < 2 * 2 ^ (LENGTH('a) - 1)"
    using unsigned_less [of x, where 'a = nat] two_pow_len [where 'a = 'a] by simp
  have "bit x (LENGTH('a) - 1) \<longleftrightarrow> bit (unat x) (LENGTH('a) - 1)"
    by (simp add: bit_simps)
  also have "\<dots> \<longleftrightarrow> odd (unat x div 2 ^ (LENGTH('a) - 1))"
    by (simp add: bit_iff_odd)
  also have "\<dots> \<longleftrightarrow> 2 ^ (LENGTH('a) - 1) \<le> unat x"
  proof (cases "2 ^ (LENGTH('a) - 1) \<le> unat x")
    case True
    then have "unat x div 2 ^ (LENGTH('a) - 1) = 1"
      using lt by (simp add: div_nat_eqI)
    with True show ?thesis by simp
  next
    case False
    then show ?thesis by simp
  qed
  finally show ?thesis .
qed

lemma toobig_top:
  fixes i b :: "'a::len word"
  assumes i: "unat i < 2 ^ (LENGTH('a) - 1)" and b: "unat b < 2 ^ (LENGTH('a) - 1)"
  shows "2 ^ (LENGTH('a) - 1) \<le> unat (b - i - 1) \<longleftrightarrow> unat b \<le> unat i"
proof -
  define H :: nat where "H = 2 ^ (LENGTH('a) - 1)"
  have N: "(2 :: nat) ^ LENGTH('a) = 2 * H"
    unfolding H_def by (rule two_pow_len)
  have Hpos: "0 < H" unfolding H_def by simp
  have i1: "unat (i + 1) = unat i + 1"
    using i N Hpos unfolding H_def [symmetric]
    by (simp add: unat_word_ariths)
  have e: "b - i - 1 = b - (i + 1)" by simp
  have "unat (b - (i + 1)) =
      (if unat i + 1 \<le> unat b then unat b - (unat i + 1) else unat b + 2 * H - (unat i + 1))"
    unfolding unat_sub_if_size word_size i1 N ..
  then show ?thesis
    using i b unfolding e H_def [symmetric] by (auto split: if_splits)
qed

lemma nospec_combined_mask_eq:
  fixes i b :: "'a::len word"
  shows "nospec_combined_mask i b =
          (if unat i < unat b \<and> unat b < 2 ^ (LENGTH('a) - 1) then - 1 else 0)"
proof -
  let ?t = "LENGTH('a) - 1"
  let ?c = "i OR b OR (b - i - 1)"
  have eq: "nospec_combined_mask i b = (if bit ?c ?t then 0 else - 1)"
    unfolding nospec_combined_mask_def Let_def SIZE_MAX_def top_bit_word div_top_bit
    by (simp add: bit_simps)
  have c: "bit ?c ?t \<longleftrightarrow>
      2 ^ ?t \<le> unat i \<or> 2 ^ ?t \<le> unat b \<or> 2 ^ ?t \<le> unat (b - i - 1)"
    unfolding bit_top_unat [symmetric] bit_or_iff by blast
  have "bit ?c ?t \<longleftrightarrow> \<not> (unat i < unat b \<and> unat b < 2 ^ ?t)"
  proof (cases "unat i < 2 ^ ?t \<and> unat b < 2 ^ ?t")
    case True
    then show ?thesis
      using toobig_top [of i b] c by auto
  next
    case False
    then show ?thesis
      using c by auto
  qed
  with eq show ?thesis by simp
qed

lemma aws_nospec_index_mask: "aws_nospec_index i b = i AND nospec_combined_mask i b"
  by (simp add: aws_nospec_index_def nospec_combined_mask_def Let_def)

lemma aws_nospec_index_eq:
  fixes i b :: "'a::len word"
  shows "aws_nospec_index i b =
          (if unat i < unat b \<and> unat b < 2 ^ (LENGTH('a) - 1) then i else 0)"
  by (simp add: aws_nospec_index_mask nospec_combined_mask_eq)

lemma aws_nospec_index_word:
  fixes i b :: "'a::len word"
  shows "aws_nospec_index i b = (if i < b \<and> b \<le> SIZE_MAX div 2 then i else 0)"
  unfolding aws_nospec_index_eq half_max_div le_half_max_iff word_less_nat_alt ..

text \<open>
  C3. \<open>aws_nospec_index i b\<close> is \<open>i\<close> whenever \<open>i < b\<close> and \<open>b \<le> SIZE_MAX / 2\<close>; it is
  0 whenever \<open>i \<ge> b\<close>, or \<open>i > SIZE_MAX / 2\<close>, or \<open>b > SIZE_MAX / 2\<close>. For bound 10 and
  index 10 it is 0.
\<close>

theorem nospec_index_value:
  fixes i b :: "'a::len word"
  shows "(i < b \<and> b \<le> SIZE_MAX div 2 \<longrightarrow> aws_nospec_index i b = i)
       \<and> (b \<le> i \<or> SIZE_MAX div 2 < i \<or> SIZE_MAX div 2 < b \<longrightarrow> aws_nospec_index i b = 0)
       \<and> aws_nospec_index (10 :: 'a word) 10 = 0"
  by (auto simp add: aws_nospec_index_word)

theorem nospec_index_value_witness:
  "aws_nospec_index (9 :: 64 word) 10 = 9
   \<and> aws_nospec_index (10 :: 64 word) 10 = 0
   \<and> aws_nospec_index (11 :: 64 word) 10 = 0
   \<and> aws_nospec_index (0x8000000000000000 :: 64 word) 0x8000000000000001 = 0
   \<and> aws_nospec_index (3 :: 64 word) 0x8000000000000000 = 0"
proof -
  have h1: "(9 :: 64 word) < 10 \<and> (10 :: 64 word) \<le> SIZE_MAX div 2" by code_simp
  have h2: "(10 :: 64 word) \<le> 11" by simp
  have h3: "SIZE_MAX div 2 < (0x8000000000000000 :: 64 word)" by code_simp
  show ?thesis
    using nospec_index_value [of 9 "10 :: 64 word"] nospec_index_value [of 11 "10 :: 64 word"]
      nospec_index_value [of "0x8000000000000000" "0x8000000000000001 :: 64 word"]
      nospec_index_value [of 3 "0x8000000000000000 :: 64 word"] h1 h2 h3
    by blast
qed

text \<open>
  C10. The mask that \<open>aws_nospec_index\<close> computes is all-zeros or all-ones, the result is
  the index under that mask, so it is 0 or the index itself and nothing else; whenever the
  result is not 0, \<open>index < bound\<close> and both are at most \<open>SIZE_MAX / 2\<close>.
\<close>

theorem nospec_index_zero_or_index:
  fixes i b :: "'a::len word"
  shows "(nospec_combined_mask i b = 0 \<or> nospec_combined_mask i b = - 1)
       \<and> aws_nospec_index i b = i AND nospec_combined_mask i b
       \<and> (aws_nospec_index i b = 0 \<or> aws_nospec_index i b = i)
       \<and> (aws_nospec_index i b \<noteq> 0 \<longrightarrow> i < b \<and> i \<le> SIZE_MAX div 2 \<and> b \<le> SIZE_MAX div 2)"
proof -
  have "aws_nospec_index i b \<noteq> 0 \<Longrightarrow> i < b \<and> i \<le> SIZE_MAX div 2 \<and> b \<le> SIZE_MAX div 2"
    by (auto simp add: aws_nospec_index_word split: if_splits)
  moreover have "nospec_combined_mask i b = 0 \<or> nospec_combined_mask i b = - 1"
    by (simp add: nospec_combined_mask_eq)
  moreover have "aws_nospec_index i b = 0 \<or> aws_nospec_index i b = i"
    by (simp add: aws_nospec_index_word)
  ultimately show ?thesis
    using aws_nospec_index_mask [of i b] by blast
qed

theorem nospec_index_zero_or_index_witness:
  "aws_nospec_index (9 :: 64 word) 10 \<noteq> 0
   \<and> (9 :: 64 word) < 10 \<and> (9 :: 64 word) \<le> SIZE_MAX div 2 \<and> (10 :: 64 word) \<le> SIZE_MAX div 2"
proof -
  have "aws_nospec_index (9 :: 64 word) 10 \<noteq> 0" by code_simp
  then show ?thesis
    using nospec_index_zero_or_index [of 9 "10 :: 64 word"] by blast
qed

section \<open>Advancing a cursor\<close>

lemma advance_eq:
  fixes c :: "'a::len aws_byte_cursor"
  shows "aws_byte_cursor_advance c n =
          (if len c < n \<or> SIZE_MAX div 2 < n \<or> SIZE_MAX div 2 < len c
           then (\<lparr>ptr = NULL, len = 0\<rparr>, c)
           else (\<lparr>ptr = ptr c, len = n\<rparr>, \<lparr>ptr = ptr c + n, len = len c - n\<rparr>))"
  unfolding aws_byte_cursor_advance_def half_max_div by auto

text \<open>
  C1. For a cursor with pointer \<open>p\<close> and remaining length \<open>R\<close> and a requested length \<open>n\<close>:
  if \<open>n\<close> exceeds \<open>R\<close>, or \<open>n\<close> or \<open>R\<close> exceeds \<open>SIZE_MAX / 2\<close>, the call returns the empty
  cursor (null pointer, length 0) and leaves the cursor \<open>(p, R)\<close> as it was; otherwise it
  returns \<open>(p, n)\<close>, the first \<open>n\<close> bytes at the current position, and the cursor becomes
  \<open>(p + n, R - n)\<close>, where the subtraction does not wrap.
\<close>

theorem advance_result:
  fixes p R n :: "'a::len word"
  shows "(R < n \<or> SIZE_MAX div 2 < n \<or> SIZE_MAX div 2 < R \<longrightarrow>
            aws_byte_cursor_advance \<lparr>ptr = p, len = R\<rparr> n
              = (\<lparr>ptr = NULL, len = 0\<rparr>, \<lparr>ptr = p, len = R\<rparr>))
       \<and> (n \<le> R \<and> n \<le> SIZE_MAX div 2 \<and> R \<le> SIZE_MAX div 2 \<longrightarrow>
            aws_byte_cursor_advance \<lparr>ptr = p, len = R\<rparr> n
              = (\<lparr>ptr = p, len = n\<rparr>, \<lparr>ptr = p + n, len = R - n\<rparr>)
            \<and> unat (R - n) = unat R - unat n)"
  by (auto simp add: advance_eq unat_sub)

theorem advance_result_witness:
  "aws_byte_cursor_advance \<lparr>ptr = 0x1000 :: 64 word, len = 11\<rparr> 5
     = (\<lparr>ptr = 0x1000, len = 5\<rparr>, \<lparr>ptr = 0x1005, len = 6\<rparr>)
   \<and> aws_byte_cursor_advance \<lparr>ptr = 0x100B :: 64 word, len = 0\<rparr> 1
     = (\<lparr>ptr = NULL, len = 0\<rparr>, \<lparr>ptr = 0x100B, len = 0\<rparr>)"
proof -
  have h1: "(5 :: 64 word) \<le> 11 \<and> (5 :: 64 word) \<le> SIZE_MAX div 2 \<and> (11 :: 64 word) \<le> SIZE_MAX div 2"
    by code_simp
  have h2: "(0 :: 64 word) < 1" by simp
  show ?thesis
    using advance_result [where p = "0x1000 :: 64 word" and R = 11 and n = 5]
      advance_result [where p = "0x100B :: 64 word" and R = 0 and n = 1] h1 h2
    by simp
qed

text \<open>
  C2. \<open>aws_byte_cursor_advance_nospec\<close> is documented to behave identically to
  \<open>aws_byte_cursor_advance\<close>. On a 64-bit cursor with \<open>SIZE_MAX / 2\<close> bytes remaining and
  the requested length 1 the two differ: \<open>aws_byte_cursor_advance\<close> returns one byte and
  advances the cursor, \<open>aws_byte_cursor_advance_nospec\<close> returns a view of length 0 at the
  current pointer and leaves the cursor where it was, because the bound
  \<open>len + 1\<close> that it passes to \<open>aws_nospec_index\<close> is above \<open>SIZE_MAX / 2\<close>.
\<close>

theorem advance_nospec_differs_at_half_max:
  "aws_byte_cursor_advance \<lparr>ptr = 0x1000 :: 64 word, len = 0x7FFFFFFFFFFFFFFF\<rparr> 1
     = (\<lparr>ptr = 0x1000, len = 1\<rparr>, \<lparr>ptr = 0x1001, len = 0x7FFFFFFFFFFFFFFE\<rparr>)
   \<and> aws_byte_cursor_advance_nospec \<lparr>ptr = 0x1000 :: 64 word, len = 0x7FFFFFFFFFFFFFFF\<rparr> 1
     = (\<lparr>ptr = 0x1000, len = 0\<rparr>, \<lparr>ptr = 0x1000, len = 0x7FFFFFFFFFFFFFFF\<rparr>)"
  by code_simp

text \<open>
  What \<open>aws_byte_cursor_advance_nospec\<close> computes, for every word width, and the inputs
  on which it agrees with \<open>aws_byte_cursor_advance\<close>: all but a cursor with exactly
  \<open>SIZE_MAX / 2\<close> bytes remaining and a requested length between 1 and that.
\<close>

lemma advance_nospec_eq:
  fixes c :: "'a::len aws_byte_cursor"
  shows "aws_byte_cursor_advance_nospec c n =
     (if len c < n \<or> SIZE_MAX div 2 < n \<or> SIZE_MAX div 2 < len c
      then (\<lparr>ptr = NULL, len = 0\<rparr>, c)
      else if len c = SIZE_MAX div 2
      then (\<lparr>ptr = ptr c, len = 0\<rparr>, c)
      else (\<lparr>ptr = ptr c, len = n\<rparr>, \<lparr>ptr = ptr c + n, len = len c - n\<rparr>))"
proof -
  let ?M = "drop_bit 1 (SIZE_MAX :: 'a word)"
  let ?H = "(2 :: nat) ^ (LENGTH('a) - 1)"
  show ?thesis
  proof (cases "n \<le> len c \<and> n \<le> ?M \<and> len c \<le> ?M")
    case False
    then show ?thesis
      unfolding aws_byte_cursor_advance_nospec_def half_max_div by auto
  next
    case True
    then have "len c \<le> ?M" and "n \<le> len c"
      by simp_all
    then have R: "unat (len c) < ?H" and nR: "unat n \<le> unat (len c)"
      unfolding le_half_max_iff by (simp_all add: word_le_nat_alt)
    have "unat (len c) + 1 < 2 ^ LENGTH('a)"
      unfolding two_pow_len [where 'a = 'a] using R by simp
    then have R1: "unat (len c + 1) = unat (len c) + 1"
      by (simp add: unat_word_ariths)
    have M: "len c = ?M \<longleftrightarrow> unat (len c) = ?H - 1"
      unfolding word_unat_eq_iff half_max_unat ..
    have idx: "aws_nospec_index n (len c + 1) = (if len c = ?M then 0 else n)"
      unfolding aws_nospec_index_eq R1 M using R nR by auto
    have c: "\<lparr>ptr = ptr c, len = len c\<rparr> = c" by simp
    from True show ?thesis
      unfolding aws_byte_cursor_advance_nospec_def half_max_div idx Let_def
      by (auto simp add: c)
  qed
qed

lemma advance_nospec_eq_advance_iff:
  fixes c :: "'a::len aws_byte_cursor"
  shows "aws_byte_cursor_advance_nospec c n = aws_byte_cursor_advance c n
     \<longleftrightarrow> \<not> (len c = SIZE_MAX div 2 \<and> n \<noteq> 0 \<and> n \<le> len c)"
proof -
  have c: "\<lparr>ptr = ptr c, len = len c\<rparr> = c" by simp
  have "(\<lparr>ptr = ptr c, len = 0\<rparr>, c) = (\<lparr>ptr = ptr c, len = n\<rparr>, \<lparr>ptr = ptr c + n, len = len c - n\<rparr>)
      \<longleftrightarrow> n = 0"
    by (subst (2) c [symmetric]) auto
  then show ?thesis
    unfolding advance_nospec_eq advance_eq by auto
qed


lemma do_advance_call_step:
  fixes c :: "'a::len aws_byte_cursor"
  assumes "do_advance_call c call = (rv, c')"
  shows "(rv = \<lparr>ptr = NULL, len = 0\<rparr> \<and> c' = c)
       \<or> (ptr rv = ptr c \<and> len rv \<le> len c \<and> ptr c' = ptr c + len rv \<and> len c' = len c - len rv)"
proof (cases call)
  case (Advance n)
  with assms show ?thesis
    by (auto simp add: advance_eq split: if_splits)
next
  case (Advance_Nospec n)
  with assms show ?thesis
    by (auto simp add: advance_nospec_eq split: if_splits)
qed

lemma do_advance_call_shrinks:
  fixes c :: "'a::len aws_byte_cursor"
  shows "len (snd (do_advance_call c call)) \<le> len c
       \<and> ptr (snd (do_advance_call c call)) + len (snd (do_advance_call c call)) = ptr c + len c"
proof -
  obtain rv c' where e: "do_advance_call c call = (rv, c')"
    by (cases "do_advance_call c call")
  from do_advance_call_step [OF e] show ?thesis
    unfolding e by (auto simp add: word_sub_le)
qed

lemma advance_calls_shrinks:
  fixes c :: "'a::len aws_byte_cursor"
  shows "len (advance_calls c calls) \<le> len c
       \<and> ptr (advance_calls c calls) + len (advance_calls c calls) = ptr c + len c"
proof (induction calls arbitrary: c)
  case Nil
  show ?case by simp
next
  case (Cons call calls)
  from Cons.IH [of "snd (do_advance_call c call)"] do_advance_call_shrinks [of c call]
  show ?case by auto
qed

text \<open>
  C4. Over every sequence of \<open>aws_byte_cursor_advance\<close> and
  \<open>aws_byte_cursor_advance_nospec\<close> calls with arbitrary length arguments the remaining
  length never increases and pointer plus remaining length stays the same, so the
  pointer has moved forward by the bytes consumed. Each single call either fails (empty
  result, cursor unchanged) or returns a view at the old pointer of at most the
  remaining length, moves the pointer forward by the length of that view and decreases
  the remaining length by the same amount, without wrapping. From remaining length 0
  every call of either function with a length other than 0 fails.
\<close>

theorem cursor_only_advances:
  fixes c :: "'a::len aws_byte_cursor"
  shows "len (advance_calls c calls) \<le> len c
     \<and> ptr (advance_calls c calls) + len (advance_calls c calls) = ptr c + len c
     \<and> ptr (advance_calls c calls) = ptr c + (len c - len (advance_calls c calls))
     \<and> (case do_advance_call c call of (rv, c') \<Rightarrow>
            (rv = \<lparr>ptr = NULL, len = 0\<rparr> \<and> c' = c)
          \<or> (ptr rv = ptr c \<and> len rv \<le> len c
              \<and> ptr c' = ptr c + len rv \<and> len c' = len c - len rv
              \<and> unat (len c') = unat (len c) - unat (len rv)))
     \<and> (len c = 0 \<and> n \<noteq> 0 \<longrightarrow>
            aws_byte_cursor_advance c n = (\<lparr>ptr = NULL, len = 0\<rparr>, c)
          \<and> aws_byte_cursor_advance_nospec c n = (\<lparr>ptr = NULL, len = 0\<rparr>, c))"
proof -
  have seq: "len (advance_calls c calls) \<le> len c"
    "ptr (advance_calls c calls) + len (advance_calls c calls) = ptr c + len c"
    using advance_calls_shrinks [of c calls] by simp_all
  have fwd: "ptr (advance_calls c calls) = ptr c + (len c - len (advance_calls c calls))"
    using seq(2) by (simp add: algebra_simps)
  obtain rv c' where e: "do_advance_call c call = (rv, c')"
    by (cases "do_advance_call c call")
  have step: "case do_advance_call c call of (rv, c') \<Rightarrow>
            (rv = \<lparr>ptr = NULL, len = 0\<rparr> \<and> c' = c)
          \<or> (ptr rv = ptr c \<and> len rv \<le> len c
              \<and> ptr c' = ptr c + len rv \<and> len c' = len c - len rv
              \<and> unat (len c') = unat (len c) - unat (len rv))"
    using do_advance_call_step [OF e] unfolding e by (auto simp add: unat_sub)
  have stop: "len c = 0 \<and> n \<noteq> 0 \<longrightarrow>
            aws_byte_cursor_advance c n = (\<lparr>ptr = NULL, len = 0\<rparr>, c)
          \<and> aws_byte_cursor_advance_nospec c n = (\<lparr>ptr = NULL, len = 0\<rparr>, c)"
    by (auto simp add: advance_eq advance_nospec_eq word_gt_0)
  from seq fwd step stop show ?thesis by blast
qed

theorem cursor_only_advances_witness:
  "aws_byte_cursor_advance \<lparr>ptr = 0x100B :: 64 word, len = 0\<rparr> 1
      = (\<lparr>ptr = NULL, len = 0\<rparr>, \<lparr>ptr = 0x100B, len = 0\<rparr>)
   \<and> aws_byte_cursor_advance_nospec \<lparr>ptr = 0x100B :: 64 word, len = 0\<rparr> 1
      = (\<lparr>ptr = NULL, len = 0\<rparr>, \<lparr>ptr = 0x100B, len = 0\<rparr>)"
  using cursor_only_advances [where c = "\<lparr>ptr = 0x100B :: 64 word, len = 0\<rparr>" and n = 1]
  by simp

text \<open>
  The scenario of the specification: a cursor over the 11 bytes of \<^verbatim>\<open>hello world\<close> at
  address \<^verbatim>\<open>0x1000\<close>; advancing by 5 and by 6 consumes the view, a further advance by 1
  fails and leaves the cursor empty at the end of the view.
\<close>

lemma hello_world_scenario:
  "aws_byte_cursor_advance \<lparr>ptr = 0x1000 :: 64 word, len = 11\<rparr> 5
     = (\<lparr>ptr = 0x1000, len = 5\<rparr>, \<lparr>ptr = 0x1005, len = 6\<rparr>)
   \<and> aws_byte_cursor_advance \<lparr>ptr = 0x1005 :: 64 word, len = 6\<rparr> 6
     = (\<lparr>ptr = 0x1005, len = 6\<rparr>, \<lparr>ptr = 0x100B, len = 0\<rparr>)
   \<and> aws_byte_cursor_advance \<lparr>ptr = 0x100B :: 64 word, len = 0\<rparr> 1
     = (\<lparr>ptr = NULL, len = 0\<rparr>, \<lparr>ptr = 0x100B, len = 0\<rparr>)
   \<and> advance_calls \<lparr>ptr = 0x1000 :: 64 word, len = 11\<rparr> [Advance 5, Advance_Nospec 6, Advance 1]
     = \<lparr>ptr = 0x100B, len = 0\<rparr>"
  by code_simp

section \<open>Atomic variables\<close>

lemma xlate_order_accepts:
  assumes "order \<in> set (memory_orders E)"
  shows "\<exists>mo. aws_atomic_priv_xlate_order E order = Inr mo"
  using assms by (auto simp add: memory_orders_def aws_atomic_priv_xlate_order_def)

text \<open>
  C8. The order translator returns normally on each of the five enumerators, with the
  builtin token of the same name (relaxed, acquire, release, acquire-release,
  sequentially consistent), and on every argument that is none of the five it returns
  no token but aborts. The enumerators have distinct values, as the case labels of a
  \<^verbatim>\<open>switch\<close> must.
\<close>

theorem xlate_order_total:
  assumes "distinct (memory_orders E)"
  shows "aws_atomic_priv_xlate_order E (aws_memory_order_relaxed E) = Inr ATOMIC_RELAXED
       \<and> aws_atomic_priv_xlate_order E (aws_memory_order_acquire E) = Inr ATOMIC_ACQUIRE
       \<and> aws_atomic_priv_xlate_order E (aws_memory_order_release E) = Inr ATOMIC_RELEASE
       \<and> aws_atomic_priv_xlate_order E (aws_memory_order_acq_rel E) = Inr ATOMIC_ACQ_REL
       \<and> aws_atomic_priv_xlate_order E (aws_memory_order_seq_cst E) = Inr ATOMIC_SEQ_CST
       \<and> (order \<notin> set (memory_orders E) \<longrightarrow> aws_atomic_priv_xlate_order E order = Inl Abort)
       \<and> (order \<in> set (memory_orders E) \<longrightarrow> aws_atomic_priv_xlate_order E order \<noteq> Inl Abort)"
  using assms by (auto simp add: memory_orders_def aws_atomic_priv_xlate_order_def)

theorem xlate_order_total_witness:
  "distinct (memory_orders gnu_orders)
   \<and> aws_atomic_priv_xlate_order gnu_orders 0 = Inr ATOMIC_RELAXED
   \<and> aws_atomic_priv_xlate_order gnu_orders 2 = Inr ATOMIC_ACQUIRE
   \<and> aws_atomic_priv_xlate_order gnu_orders 3 = Inr ATOMIC_RELEASE
   \<and> aws_atomic_priv_xlate_order gnu_orders 4 = Inr ATOMIC_ACQ_REL
   \<and> aws_atomic_priv_xlate_order gnu_orders 5 = Inr ATOMIC_SEQ_CST
   \<and> 1 \<notin> set (memory_orders gnu_orders)
   \<and> aws_atomic_priv_xlate_order gnu_orders 1 = Inl Abort"
proof -
  have d: "distinct (memory_orders gnu_orders)"
    by (simp add: memory_orders_def gnu_orders_def)
  have n: "1 \<notin> set (memory_orders gnu_orders)"
    by (simp add: memory_orders_def gnu_orders_def)
  show ?thesis
    using xlate_order_total [OF d, of 1] d n by (simp add: gnu_orders_def)
qed

lemmas atomic_builtin_defs =
  atomic_load_n_def atomic_store_n_def atomic_exchange_n_def atomic_compare_exchange_n_def
  atomic_fetch_add_def atomic_fetch_sub_def atomic_fetch_or_def atomic_fetch_and_def
  atomic_fetch_xor_def intval_def ptrval_def

text \<open>
  C5. For every cell value \<open>c\<close>, expected value \<open>e\<close> and desired value \<open>d\<close>: when \<open>e = c\<close>
  the compare-exchange sets the cell to \<open>d\<close>, returns true and leaves \<open>*expected\<close> as it
  was; when \<open>e \<noteq> c\<close> it returns false, leaves the cell as it was and writes \<open>c\<close> to
  \<open>*expected\<close>. The integer and the pointer function do the same.
\<close>

theorem compare_exchange_result:
  fixes c e d :: "'a::len word"
  assumes "order_success \<in> set (memory_orders E)" and "order_failure \<in> set (memory_orders E)"
  shows "(e = c \<longrightarrow>
            aws_atomic_compare_exchange_int_explicit E \<lparr>cell = c\<rparr> e d order_success order_failure
              = Inr (True, \<lparr>cell = d\<rparr>, e)
          \<and> aws_atomic_compare_exchange_ptr_explicit E \<lparr>cell = c\<rparr> e d order_success order_failure
              = Inr (True, \<lparr>cell = d\<rparr>, e))
       \<and> (e \<noteq> c \<longrightarrow>
            aws_atomic_compare_exchange_int_explicit E \<lparr>cell = c\<rparr> e d order_success order_failure
              = Inr (False, \<lparr>cell = c\<rparr>, c)
          \<and> aws_atomic_compare_exchange_ptr_explicit E \<lparr>cell = c\<rparr> e d order_success order_failure
              = Inr (False, \<lparr>cell = c\<rparr>, c))"
proof -
  obtain ms mf where "aws_atomic_priv_xlate_order E order_success = Inr ms"
    and "aws_atomic_priv_xlate_order E order_failure = Inr mf"
    using assms xlate_order_accepts by blast
  then show ?thesis
    by (simp add: aws_atomic_compare_exchange_int_explicit_def
        aws_atomic_compare_exchange_ptr_explicit_def atomic_builtin_defs)
qed

theorem compare_exchange_result_witness:
  "aws_atomic_compare_exchange_int_explicit gnu_orders \<lparr>cell = 7 :: 64 word\<rparr> 7 9 5 0
      = Inr (True, \<lparr>cell = 9\<rparr>, 7)
   \<and> aws_atomic_compare_exchange_ptr_explicit gnu_orders \<lparr>cell = 7 :: 64 word\<rparr> 7 9 5 0
      = Inr (True, \<lparr>cell = 9\<rparr>, 7)
   \<and> aws_atomic_compare_exchange_int_explicit gnu_orders \<lparr>cell = 7 :: 64 word\<rparr> 8 9 5 0
      = Inr (False, \<lparr>cell = 7\<rparr>, 7)
   \<and> aws_atomic_compare_exchange_ptr_explicit gnu_orders \<lparr>cell = 7 :: 64 word\<rparr> 8 9 5 0
      = Inr (False, \<lparr>cell = 7\<rparr>, 7)"
proof -
  have s: "5 \<in> set (memory_orders gnu_orders)" and f: "0 \<in> set (memory_orders gnu_orders)"
    by (simp_all add: memory_orders_def gnu_orders_def)
  show ?thesis
    using compare_exchange_result [OF s f, of 7 "7 :: 64 word" 9]
      compare_exchange_result [OF s f, of 8 "7 :: 64 word" 9]
    by simp
qed


text \<open>
  C6. For every order and every value \<open>v\<close>, integer or pointer: a load right after
  \<open>init v\<close> or after \<open>store v\<close> returns \<open>v\<close>; an exchange with \<open>v2\<close> on a cell that holds
  \<open>v\<close> returns \<open>v\<close>, and the load that follows returns \<open>v2\<close>.
\<close>

theorem load_returns_last_written:
  fixes v v2 :: "'a::len word"
  assumes "order \<in> set (memory_orders E)" and "order' \<in> set (memory_orders E)"
  shows "aws_atomic_load_int_explicit E (aws_atomic_init_int var v) order = Inr v
       \<and> aws_atomic_load_ptr_explicit E (aws_atomic_init_ptr var v) order = Inr v
       \<and> (\<exists>var'. aws_atomic_store_int_explicit E var v order = Inr var'
              \<and> aws_atomic_load_int_explicit E var' order = Inr v)
       \<and> (\<exists>var'. aws_atomic_store_ptr_explicit E var v order = Inr var'
              \<and> aws_atomic_load_ptr_explicit E var' order = Inr v)
       \<and> (\<exists>var'. aws_atomic_exchange_int_explicit E (aws_atomic_init_int var v) v2 order
                = Inr (v, var')
              \<and> aws_atomic_load_int_explicit E var' order' = Inr v2)
       \<and> (\<exists>var'. aws_atomic_exchange_ptr_explicit E (aws_atomic_init_ptr var v) v2 order
                = Inr (v, var')
              \<and> aws_atomic_load_ptr_explicit E var' order' = Inr v2)"
proof -
  obtain mo mo' where "aws_atomic_priv_xlate_order E order = Inr mo"
    and "aws_atomic_priv_xlate_order E order' = Inr mo'"
    using assms xlate_order_accepts by blast
  then show ?thesis
    by (simp add: aws_atomic_load_int_explicit_def aws_atomic_load_ptr_explicit_def
        aws_atomic_store_int_explicit_def aws_atomic_store_ptr_explicit_def
        aws_atomic_exchange_int_explicit_def aws_atomic_exchange_ptr_explicit_def
        aws_atomic_init_int_def aws_atomic_init_ptr_def atomic_builtin_defs)
qed

theorem load_returns_last_written_witness:
  "aws_atomic_load_int_explicit gnu_orders (aws_atomic_init_int \<lparr>cell = 0\<rparr> (42 :: 64 word)) 3
      = Inr 42
   \<and> (\<exists>var'. aws_atomic_store_int_explicit gnu_orders \<lparr>cell = 0\<rparr> (42 :: 64 word) 3 = Inr var'
          \<and> aws_atomic_load_int_explicit gnu_orders var' 3 = Inr 42)
   \<and> (\<exists>var'. aws_atomic_exchange_ptr_explicit gnu_orders
                (aws_atomic_init_ptr \<lparr>cell = 0\<rparr> (42 :: 64 word)) 43 3 = Inr (42, var')
          \<and> aws_atomic_load_ptr_explicit gnu_orders var' 2 = Inr 43)"
proof -
  have a: "3 \<in> set (memory_orders gnu_orders)" and b: "2 \<in> set (memory_orders gnu_orders)"
    by (simp_all add: memory_orders_def gnu_orders_def)
  show ?thesis
    using load_returns_last_written [OF a b, of "\<lparr>cell = 0\<rparr>" "42 :: 64 word" 43]
    by blast
qed

text \<open>
  C7. On a cell that holds \<open>old\<close>, for every operand \<open>n\<close> and every order: \<open>fetch_add\<close>
  returns \<open>old\<close> and the load that follows returns \<open>(old + n) mod 2 ^ w\<close>, \<open>w\<close> the word
  width; \<open>fetch_sub\<close> returns \<open>old\<close> and leaves \<open>(old - n) mod 2 ^ w\<close>; \<open>fetch_or\<close>,
  \<open>fetch_and\<close> and \<open>fetch_xor\<close> return \<open>old\<close> and leave \<open>old OR n\<close>, \<open>old AND n\<close> and
  \<open>old XOR n\<close>.
\<close>

theorem fetch_ops_result:
  fixes n :: "'a::len word"
  assumes "order \<in> set (memory_orders E)" and "order' \<in> set (memory_orders E)"
  shows "aws_atomic_fetch_add_explicit E var n order
            = Inr (intval var, var\<lparr>cell := intval var + n\<rparr>)
       \<and> aws_atomic_load_int_explicit E (var\<lparr>cell := intval var + n\<rparr>) order'
            = Inr (intval var + n)
       \<and> unat (intval var + n) = (unat (intval var) + unat n) mod 2 ^ LENGTH('a)
       \<and> aws_atomic_fetch_sub_explicit E var n order
            = Inr (intval var, var\<lparr>cell := intval var - n\<rparr>)
       \<and> aws_atomic_load_int_explicit E (var\<lparr>cell := intval var - n\<rparr>) order'
            = Inr (intval var - n)
       \<and> uint (intval var - n) = (uint (intval var) - uint n) mod 2 ^ LENGTH('a)
       \<and> aws_atomic_fetch_or_explicit E var n order
            = Inr (intval var, var\<lparr>cell := intval var OR n\<rparr>)
       \<and> aws_atomic_load_int_explicit E (var\<lparr>cell := intval var OR n\<rparr>) order'
            = Inr (intval var OR n)
       \<and> aws_atomic_fetch_and_explicit E var n order
            = Inr (intval var, var\<lparr>cell := intval var AND n\<rparr>)
       \<and> aws_atomic_load_int_explicit E (var\<lparr>cell := intval var AND n\<rparr>) order'
            = Inr (intval var AND n)
       \<and> aws_atomic_fetch_xor_explicit E var n order
            = Inr (intval var, var\<lparr>cell := intval var XOR n\<rparr>)
       \<and> aws_atomic_load_int_explicit E (var\<lparr>cell := intval var XOR n\<rparr>) order'
            = Inr (intval var XOR n)"
proof -
  obtain mo mo' where x: "aws_atomic_priv_xlate_order E order = Inr mo"
    "aws_atomic_priv_xlate_order E order' = Inr mo'"
    using assms xlate_order_accepts by blast
  have ar: "unat (intval var + n) = (unat (intval var) + unat n) mod 2 ^ LENGTH('a)"
    "uint (intval var - n) = (uint (intval var) - uint n) mod 2 ^ LENGTH('a)"
    by (simp_all add: unat_word_ariths uint_word_ariths)
  have ops: "aws_atomic_fetch_add_explicit E var n order
            = Inr (intval var, var\<lparr>cell := intval var + n\<rparr>)"
    "aws_atomic_fetch_sub_explicit E var n order
            = Inr (intval var, var\<lparr>cell := intval var - n\<rparr>)"
    "aws_atomic_fetch_or_explicit E var n order
            = Inr (intval var, var\<lparr>cell := intval var OR n\<rparr>)"
    "aws_atomic_fetch_and_explicit E var n order
            = Inr (intval var, var\<lparr>cell := intval var AND n\<rparr>)"
    "aws_atomic_fetch_xor_explicit E var n order
            = Inr (intval var, var\<lparr>cell := intval var XOR n\<rparr>)"
    using x(1)
    by (simp_all add: aws_atomic_fetch_add_explicit_def aws_atomic_fetch_sub_explicit_def
        aws_atomic_fetch_or_explicit_def aws_atomic_fetch_and_explicit_def
        aws_atomic_fetch_xor_explicit_def atomic_builtin_defs)
  have ld: "aws_atomic_load_int_explicit E (var\<lparr>cell := w\<rparr>) order' = Inr w" for w
    using x(2) by (simp add: aws_atomic_load_int_explicit_def atomic_builtin_defs)
  show ?thesis
    unfolding ops ld using ar by simp
qed

theorem fetch_ops_result_witness:
  "aws_atomic_fetch_add_explicit gnu_orders \<lparr>cell = - 1 :: 64 word\<rparr> 2 5
      = Inr (- 1, \<lparr>cell = 1\<rparr>)
   \<and> aws_atomic_load_int_explicit gnu_orders \<lparr>cell = 1 :: 64 word\<rparr> 0 = Inr 1
   \<and> aws_atomic_fetch_sub_explicit gnu_orders \<lparr>cell = 1 :: 64 word\<rparr> 2 5
      = Inr (1, \<lparr>cell = - 1\<rparr>)
   \<and> aws_atomic_fetch_or_explicit gnu_orders \<lparr>cell = 12 :: 64 word\<rparr> 10 5
      = Inr (12, \<lparr>cell = 14\<rparr>)
   \<and> aws_atomic_fetch_and_explicit gnu_orders \<lparr>cell = 12 :: 64 word\<rparr> 10 5
      = Inr (12, \<lparr>cell = 8\<rparr>)
   \<and> aws_atomic_fetch_xor_explicit gnu_orders \<lparr>cell = 12 :: 64 word\<rparr> 10 5
      = Inr (12, \<lparr>cell = 6\<rparr>)"
proof -
  have a: "5 \<in> set (memory_orders gnu_orders)" and b: "0 \<in> set (memory_orders gnu_orders)"
    by (simp_all add: memory_orders_def gnu_orders_def)
  show ?thesis
    using fetch_ops_result [OF a b, of "\<lparr>cell = - 1 :: 64 word\<rparr>" 2]
      fetch_ops_result [OF a b, of "\<lparr>cell = 1 :: 64 word\<rparr>" 2]
      fetch_ops_result [OF a b, of "\<lparr>cell = 12 :: 64 word\<rparr>" 10]
    by (simp add: intval_def)
qed

end
